theory Spec2Isabelle
  imports Main "HOL-Library.Sublist"
begin

section \<open>The documentation build script \<open>doc/build.py\<close>\<close>

text \<open>
  The script is a sequence of calls to external programs. The model threads an explicit
  interpreter state through every function of the script, returns every exception of the
  source as a value, and takes the behaviour of the operating system (process launches,
  the file system, the installed distributions) as a parameter.

  Python strings are modelled as \<open>string\<close>, the optional arguments \<open>commit\<close> and
  \<open>min_version\<close> (a \<open>str\<close> or \<open>None\<close>) as \<open>string option\<close>, and the paths follow
  \<open>posixpath\<close>.
\<close>

subsection \<open>Strings\<close>

text \<open>\<open>sep.join(xs)\<close>\<close>

fun str_join :: "string \<Rightarrow> string list \<Rightarrow> string" where
  "str_join sep [] = []"
| "str_join sep [x] = x"
| "str_join sep (x # y # ys) = x @ sep @ str_join sep (y # ys)"

text \<open>\<open>s.split(d)\<close> for a one-character separator \<open>d\<close>\<close>

fun str_split :: "char \<Rightarrow> string \<Rightarrow> string list" where
  "str_split d [] = [[]]"
| "str_split d (c # cs) =
     (if c = d then [] # str_split d cs
      else (case str_split d cs of
              [] \<Rightarrow> [[c]]
            | x # xs \<Rightarrow> (c # x) # xs))"

text \<open>\<open>s.rstrip('/')\<close>\<close>

definition rstrip_slash :: "string \<Rightarrow> string" where
  "rstrip_slash s = rev (dropWhile (\<lambda>c. c = CHR ''/'') (rev s))"

text \<open>
  The slice \<open>xs[i:]\<close>: a negative start counts from the end and is clamped to the
  start of the list, a start beyond the end gives the empty list.
\<close>

definition slice_from :: "int \<Rightarrow> 'a list \<Rightarrow> 'a list" where
  "slice_from i xs =
     (let n = int (length xs);
          start = (if i < 0 then max 0 (i + n) else min i n)
      in drop (nat start) xs)"

subsection \<open>Paths (\<open>posixpath\<close>)\<close>

definition isabs :: "string \<Rightarrow> bool" where
  "isabs p = (case p of [] \<Rightarrow> False | c # _ \<Rightarrow> c = CHR ''/'')"

text \<open>\<open>os.path.basename\<close>: what follows the last slash.\<close>

definition basename :: "string \<Rightarrow> string" where
  "basename p = rev (takeWhile (\<lambda>c. c \<noteq> CHR ''/'') (rev p))"

text \<open>
  \<open>os.path.dirname\<close>: the text up to the last slash, with the trailing slashes removed
  unless it consists of slashes only.
\<close>

definition dirname :: "string \<Rightarrow> string" where
  "dirname p =
     (let head = rev (dropWhile (\<lambda>c. c \<noteq> CHR ''/'') (rev p))
      in if head \<noteq> [] \<and> head \<noteq> replicate (length head) (CHR ''/'')
         then rstrip_slash head else head)"

text \<open>\<open>os.path.join\<close> of two paths, and of a path with several more.\<close>

definition join2 :: "string \<Rightarrow> string \<Rightarrow> string" where
  "join2 a b =
     (if isabs b then b
      else if a = [] \<or> last a = CHR ''/'' then a @ b
      else a @ ''/'' @ b)"

definition join :: "string \<Rightarrow> string list \<Rightarrow> string" where
  "join a ps = foldl join2 a ps"

text \<open>
  \<open>os.path.normpath\<close>. \<open>initial_slashes\<close> is 0, 1 or 2 (exactly two leading slashes are
  kept, three or more collapse to one); the loop over the components drops empty
  components and \<open>.\<close>, and lets \<open>..\<close> remove the component before it.
\<close>

definition initial_slashes :: "string \<Rightarrow> nat" where
  "initial_slashes p =
     (if isabs p then
        (if take 2 p = ''//'' \<and> take 3 p \<noteq> ''///'' then 2 else 1)
      else 0)"

definition norm_step :: "nat \<Rightarrow> string list \<Rightarrow> string \<Rightarrow> string list" where
  "norm_step slashes new_comps part =
     (if part = [] \<or> part = ''.'' then new_comps
      else if part \<noteq> ''..'' \<or> (slashes = 0 \<and> new_comps = [])
                \<or> (new_comps \<noteq> [] \<and> last new_comps = ''..'')
      then new_comps @ [part]
      else if new_comps \<noteq> [] then butlast new_comps
      else new_comps)"

definition normpath :: "string \<Rightarrow> string" where
  "normpath p =
     (if p = [] then ''.''
      else
        (let slashes = initial_slashes p;
             comps = foldl (norm_step slashes) [] (str_split (CHR ''/'') p);
             path = replicate slashes (CHR ''/'') @ str_join ''/'' comps
         in if path = [] then ''.'' else path))"

text \<open>\<open>os.path.abspath\<close>, given the value of \<open>os.getcwd()\<close>.\<close>

definition abspath :: "string \<Rightarrow> string \<Rightarrow> string" where
  "abspath cwd p = normpath (if isabs p then p else join2 cwd p)"

subsection \<open>Version numbers (\<open>distutils.version.LooseVersion\<close>)\<close>

text \<open>
  A version string is cut into components by the pattern \<open>(\d+ | [a-z]+ | \.)\<close>: the
  maximal runs of digits, the maximal runs of lower-case letters, and the runs of other
  characters between them; the dots are dropped. A run of digits becomes a number when
  \<open>int\<close> accepts it, which it does for at most \<open>int_max_str_digits\<close> digits (the
  default limit of the interpreter); every other component stays a string.
\<close>

definition int_max_str_digits :: nat where
  "int_max_str_digits = 4300"

datatype char_class = Digit | Lower | Dot | Other

definition char_class_of :: "char \<Rightarrow> char_class" where
  "char_class_of c =
     (if c \<in> set ''0123456789'' then Digit
      else if c \<in> set ''abcdefghijklmnopqrstuvwxyz'' then Lower
      else if c = CHR ''.'' then Dot
      else Other)"

datatype component = CInt nat | CStr string

definition digit_value :: "char \<Rightarrow> nat" where
  "digit_value c = of_char c - 48"

definition to_component :: "char_class \<Rightarrow> string \<Rightarrow> component" where
  "to_component k run =
     (if k = Digit \<and> length run \<le> int_max_str_digits
      then CInt (foldl (\<lambda>n c. 10 * n + digit_value c) 0 run)
      else CStr run)"

definition flush :: "char_class \<Rightarrow> string \<Rightarrow> component list" where
  "flush k run = (if run = [] then [] else [to_component k run])"

text \<open>\<open>components k run s\<close>: \<open>run\<close> is the run of class \<open>k\<close> read so far.\<close>

fun components :: "char_class \<Rightarrow> string \<Rightarrow> string \<Rightarrow> component list" where
  "components k run [] = flush k run"
| "components k run (c # cs) =
     (let k' = char_class_of c in
      if k' = Dot then flush k run @ components Dot [] cs
      else if run \<noteq> [] \<and> k' = k then components k (run @ [c]) cs
      else flush k run @ components k' [c] cs)"

text \<open>\<open>LooseVersion.parse\<close>: the value of the attribute \<open>version\<close>.\<close>

definition parse :: "string \<Rightarrow> component list" where
  "parse vstring = components Dot [] vstring"

text \<open>Strings compare by code point, a proper prefix being smaller.\<close>

fun str_lt :: "string \<Rightarrow> string \<Rightarrow> bool" where
  "str_lt [] [] = False"
| "str_lt [] (b # bs) = True"
| "str_lt (a # as) [] = False"
| "str_lt (a # as) (b # bs) =
     (if a = b then str_lt as bs else (of_char a :: nat) < of_char b)"

subsection \<open>Exceptions\<close>

datatype exc =
    CalledProcessError int "string list"
  | OSError nat
  | DistributionNotFound
  | TypeError
  | AttributeError
  | IndexError
  | SystemExit int
  | OtherException string

definition ENOENT :: nat where
  "ENOENT = 2"

text \<open>
  Two components of a version compare as numbers or as strings; a number against a
  string raises \<open>TypeError\<close>. Two lists compare at the first position where they
  differ and by length when one is a prefix of the other.
\<close>

fun component_lt :: "component \<Rightarrow> component \<Rightarrow> exc + bool" where
  "component_lt (CInt a) (CInt b) = Inr (a < b)"
| "component_lt (CStr a) (CStr b) = Inr (str_lt a b)"
| "component_lt (CInt a) (CStr b) = Inl TypeError"
| "component_lt (CStr a) (CInt b) = Inl TypeError"

fun list_lt :: "component list \<Rightarrow> component list \<Rightarrow> exc + bool" where
  "list_lt [] [] = Inr False"
| "list_lt [] (y # ys) = Inr True"
| "list_lt (x # xs) [] = Inr False"
| "list_lt (x # xs) (y # ys) = (if x = y then list_lt xs ys else component_lt x y)"

text \<open>
  \<open>LooseVersion(vstring)\<close> parses its argument only when it is a non-empty string:
  the object made from the empty string has no attribute \<open>version\<close>, and reading it
  raises \<open>AttributeError\<close>.
\<close>

definition LooseVersion :: "string \<Rightarrow> exc + component list" where
  "LooseVersion vstring = (if vstring = [] then Inl AttributeError else Inr (parse vstring))"

text \<open>
  \<open>LooseVersion._cmp\<close>, on the strings the two objects are made from: 0 when the
  component lists are equal, -1 when the first is smaller, 1 when it is greater. The
  comparison operators test its sign; its last branch (neither equal, smaller nor
  greater) gives \<open>None\<close>, whose sign cannot be tested.
\<close>

definition LooseVersion_cmp :: "string \<Rightarrow> string \<Rightarrow> exc + int" where
  "LooseVersion_cmp a b =
     (case LooseVersion a of
        Inl e \<Rightarrow> Inl e
      | Inr u \<Rightarrow>
          (case LooseVersion b of
             Inl e \<Rightarrow> Inl e
           | Inr v \<Rightarrow>
               (if u = v then Inr 0
                else (case list_lt u v of
                        Inl e \<Rightarrow> Inl e
                      | Inr True \<Rightarrow> Inr (- 1)
                      | Inr False \<Rightarrow>
                          (case list_lt v u of
                             Inl e \<Rightarrow> Inl e
                           | Inr True \<Rightarrow> Inr 1
                           | Inr False \<Rightarrow> Inl TypeError)))))"

definition LooseVersion_ge :: "string \<Rightarrow> string \<Rightarrow> exc + bool" where
  "LooseVersion_ge a b = map_sum id (\<lambda>c. c \<ge> 0) (LooseVersion_cmp a b)"

definition LooseVersion_lt :: "string \<Rightarrow> string \<Rightarrow> exc + bool" where
  "LooseVersion_lt a b = map_sum id (\<lambda>c. c < 0) (LooseVersion_cmp a b)"

definition LooseVersion_le :: "string \<Rightarrow> string \<Rightarrow> exc + bool" where
  "LooseVersion_le a b = map_sum id (\<lambda>c. c \<le> 0) (LooseVersion_cmp a b)"

subsection \<open>The operating system and the interpreter state\<close>

text \<open>
  \<open>'w\<close> is the state of the world outside the interpreter: the file system, the
  installed distributions, the search path. Launching a program either fails in the
  operating system, with an error number and no effect, or runs the program to its exit
  code and a new world.
\<close>

datatype 'w launch = Exited int 'w | LaunchFailed nat

text \<open>
  The interpreter state: the world, the module-level list \<open>versions\<close>, the lines printed
  so far, and the argument vectors of the programs launched (or tried) so far.
\<close>

record 'w pstate =
  world :: 'w
  versions :: "string list"
  stdout :: "string list"
  launched :: "string list list"

text \<open>The value of \<open>versions\<close> when the module is loaded.\<close>

definition initial_versions :: "string list" where
  "initial_versions = [''0.1.0'']"

type_synonym ('w, 'a) py = "'w pstate \<Rightarrow> (exc + 'a) \<times> 'w pstate"

text \<open>
  \<open>spawn\<close> is given the argument vector and the text sent to standard input, if any.
  \<open>get_distribution\<close> is \<open>pkg_resources.get_distribution(name).version\<close>.
  \<open>exec_file\<close> opens a Python file and executes its text inside the interpreter
  (\<open>exec\<close>): the text is arbitrary Python, so it may raise, change the world, print,
  launch programs and reach the variables of the module.
  \<open>cwd_names\<close> is the current directory, as the names on the way from the root;
  \<open>scripts_path\<close> is \<open>sysconfig.get_path('scripts')\<close> and \<open>script_realpath\<close> is
  \<open>os.path.realpath(__file__)\<close>, the resolved location of the script.
\<close>

record 'w os =
  spawn :: "string list \<Rightarrow> string option \<Rightarrow> 'w \<Rightarrow> 'w launch"
  path_exists :: "string \<Rightarrow> 'w \<Rightarrow> bool"
  get_distribution :: "string \<Rightarrow> 'w \<Rightarrow> exc + string"
  exec_file :: "string \<Rightarrow> ('w, unit) py"
  cwd_names :: "'w \<Rightarrow> string list"
  scripts_path :: "string"
  script_realpath :: "string"

text \<open>\<open>os.getcwd()\<close>: the absolute path of the current directory.\<close>

definition getcwd :: "'w os \<Rightarrow> 'w \<Rightarrow> string" where
  "getcwd sys w =
     (if cwd_names sys w = [] then ''/''
      else concat (map (\<lambda>name. CHR ''/'' # name) (cwd_names sys w)))"

definition bindE :: "('w, 'a) py \<Rightarrow> ('a \<Rightarrow> ('w, 'b) py) \<Rightarrow> ('w, 'b) py" where
  "bindE m f s = (case m s of (Inl e, s') \<Rightarrow> (Inl e, s') | (Inr x, s') \<Rightarrow> f x s')"

definition print :: "string \<Rightarrow> ('w, unit) py" where
  "print line s = (Inr (), s\<lparr>stdout := stdout s @ [line]\<rparr>)"

text \<open>
  \<open>Popen(cmd, stdin=PIPE)\<close> followed by \<open>communicate(input)\<close>: the exit code of the
  program, or \<open>OSError\<close> when it cannot be launched.
\<close>

definition popen_communicate :: "'w os \<Rightarrow> string list \<Rightarrow> string \<Rightarrow> ('w, int) py" where
  "popen_communicate sys cmd input s =
     (case spawn sys cmd (Some input) (world s) of
        LaunchFailed e \<Rightarrow> (Inl (OSError e), s\<lparr>launched := launched s @ [cmd]\<rparr>)
      | Exited rc w \<Rightarrow> (Inr rc, s\<lparr>world := w, launched := launched s @ [cmd]\<rparr>))"

text \<open>\<open>subprocess.check_call\<close>: a non-zero exit code raises \<open>CalledProcessError\<close>.\<close>

definition check_call :: "'w os \<Rightarrow> string list \<Rightarrow> ('w, unit) py" where
  "check_call sys cmd s =
     (case spawn sys cmd None (world s) of
        LaunchFailed e \<Rightarrow> (Inl (OSError e), s\<lparr>launched := launched s @ [cmd]\<rparr>)
      | Exited rc w \<Rightarrow>
          (if rc \<noteq> 0 then Inl (CalledProcessError rc cmd) else Inr (),
           s\<lparr>world := w, launched := launched s @ [cmd]\<rparr>))"

subsection \<open>\<open>pip_install\<close>\<close>

text \<open>
  An optional string argument (\<open>commit\<close>, \<open>min_version\<close>) is true in a condition
  when it is a non-empty string; \<open>None\<close> and the empty string are false.

  Lines 22 to 25: the package identifier is rewritten when \<open>commit\<close> is true, and
  \<open>pip\<close> is run on it.
\<close>

definition pip_identifier :: "string \<Rightarrow> string option \<Rightarrow> string" where
  "pip_identifier package commit =
     (case commit of
        None \<Rightarrow> package
      | Some c \<Rightarrow>
          (if c = [] then package
           else ''git+https://github.com/'' @ package @ ''.git@'' @ c))"

definition pip_run :: "'w os \<Rightarrow> string \<Rightarrow> string option \<Rightarrow> ('w, unit) py" where
  "pip_run sys package commit =
     bindE (print (''Installing '' @ pip_identifier package commit))
       (\<lambda>_. check_call sys [''pip'', ''install'', pip_identifier package commit])"

text \<open>
  The check of the installed version runs when \<open>min_version\<close> is true;
  \<open>DistributionNotFound\<close> is caught there, every other exception leaves the function.
\<close>

definition pip_install ::
  "'w os \<Rightarrow> string \<Rightarrow> string option \<Rightarrow> string option \<Rightarrow> ('w, unit) py" where
  "pip_install sys package commit min_version s =
     (case min_version of
        None \<Rightarrow> pip_run sys package commit s
      | Some m \<Rightarrow>
          (if m = [] then pip_run sys package commit s
           else (case get_distribution sys (basename package) (world s) of
                   Inl e \<Rightarrow>
                     (if e = DistributionNotFound then pip_run sys package commit s
                      else (Inl e, s))
                 | Inr installed_version \<Rightarrow>
                     (case LooseVersion_ge installed_version m of
                        Inl e \<Rightarrow> (Inl e, s)
                      | Inr ge \<Rightarrow>
                          (if ge
                           then print (package @ '' '' @ m @ '' already installed'') s
                           else pip_run sys package commit s)))))"

subsection \<open>\<open>create_build_env\<close>\<close>

definition create_build_env :: "'w os \<Rightarrow> string \<Rightarrow> ('w, unit) py" where
  "create_build_env sys dir =
     bindE (\<lambda>s. if \<not> path_exists sys dir (world s)
                 then check_call sys [''virtualenv'', dir] s
                 else (Inr (), s))
     (\<lambda>_.
     (let scripts_dir = basename (scripts_path sys);
          activate_this_file = join dir [scripts_dir, ''activate_this.py'']
      in
     bindE (exec_file sys activate_this_file)
     (\<lambda>_.
     bindE (\<lambda>s. (get_distribution sys ''pip'' (world s), s))
     (\<lambda>pip_version.
     bindE (\<lambda>s. (LooseVersion_lt pip_version ''1.5.4'', s))
     (\<lambda>old_pip.
     bindE (if old_pip
            then bindE (print ''Updating pip'')
                   (\<lambda>_. check_call sys [''pip'', ''install'', ''--upgrade'', ''pip''])
            else (\<lambda>s. (Inr (), s)))
     (\<lambda>_.
     bindE (\<lambda>s. case get_distribution sys ''distribute'' (world s) of
                   Inl e \<Rightarrow>
                     (if e = DistributionNotFound then (Inr (), s) else (Inl e, s))
                 | Inr distribute_version \<Rightarrow>
                     (case LooseVersion_le distribute_version ''0.6.24'' of
                        Inl e \<Rightarrow> (Inl e, s)
                      | Inr old_distribute \<Rightarrow>
                          (if old_distribute
                           then bindE (print ''Updating distribute'')
                                  (\<lambda>_. check_call sys
                                     [''pip'', ''install'', ''--upgrade'', ''distribute'']) s
                           else (Inr (), s))))
     (\<lambda>_.
     bindE (pip_install sys ''breathe'' None (Some ''4.15.0''))
     (\<lambda>_. pip_install sys ''sphinx'' None (Some ''3.1.0'')))))))))"

subsection \<open>\<open>build_docs\<close>\<close>

text \<open>The keyword arguments of \<open>build_docs\<close>; \<open>None\<close> is a key that is not given.\<close>

record kwargs =
  kw_doc_dir :: "string option"
  kw_work_dir :: "string option"
  kw_include_dir :: "string option"

definition no_kwargs :: kwargs where
  "no_kwargs = \<lparr>kw_doc_dir = None, kw_work_dir = None, kw_include_dir = None\<rparr>"

text \<open>The configuration text sent to \<open>doxygen\<close> (lines 67 to 93).\<close>

definition cmd_str :: "string \<Rightarrow> string \<Rightarrow> string" where
  "cmd_str include_dir doxyxml_dir =
     [CHR 0x0A] @ concat (map (\<lambda>line. line @ [CHR 0x0A]) [
      ''      PROJECT_NAME      = interval_dict'',
      ''      EXAMPLE_PATH      = '' @ include_dir @ ''/../..'',
      ''      GENERATE_LATEX    = NO'',
      ''      GENERATE_MAN      = NO'',
      ''      GENERATE_RTF      = NO'',
      ''      CASE_SENSE_NAMES  = NO'',
      ''      INPUT             = '' @ include_dir @ ''/bi_intervaldict.h '' @ [CHR 0x5C],
      ''                          '' @ include_dir @ ''/bi_intervaldicticl.h '' @ [CHR 0x5C],
      ''                          '' @ include_dir @ ''/config.h.in '' @ [CHR 0x5C],
      ''                          '' @ include_dir @ ''/gregorian.h '' @ [CHR 0x5C],
      ''                          '' @ include_dir @ ''/icl_interval_map_adaptor.h '' @ [CHR 0x5C],
      ''                          '' @ include_dir @ ''/intervaldict.h '' @ [CHR 0x5C],
      ''                          '' @ include_dir @ ''/intervaldicticl.h '' @ [CHR 0x5C],
      ''                          '' @ include_dir @ ''/rebase_implementation.h '' @ [CHR 0x5C],
      ''                          '' @ include_dir @ ''/interval_traits.h '' @ [CHR 0x5C],
      ''                          '' @ include_dir @ ''/ptime.h'',
      ''      QUIET             = YES'',
      ''      JAVADOC_AUTOBRIEF = YES'',
      ''      AUTOLINK_SUPPORT  = NO'',
      ''      GENERATE_HTML     = NO'',
      ''      GENERATE_XML      = YES'',
      ''      XML_OUTPUT        = '' @ doxyxml_dir,
      ''      ALIASES           = '' @ [CHR 0x22] @ ''rst='' @ [CHR 0x5C] @ ''verbatim embed:rst'' @ [CHR 0x22],
      ''      ALIASES          += '' @ [CHR 0x22] @ ''endrst='' @ [CHR 0x5C] @ ''endverbatim'' @ [CHR 0x22],
      ''      MACRO_EXPANSION   = YES''
     ]) @ ''    ''"

text \<open>
  The directories of lines 59 to 62, 66 and 98, from the keyword arguments or their
  defaults.
\<close>

definition doc_dir_of :: "'w os \<Rightarrow> kwargs \<Rightarrow> string" where
  "doc_dir_of sys kw =
     (case kw_doc_dir kw of Some d \<Rightarrow> d | None \<Rightarrow> dirname (script_realpath sys))"

definition work_dir_of :: "kwargs \<Rightarrow> string" where
  "work_dir_of kw = (case kw_work_dir kw of Some d \<Rightarrow> d | None \<Rightarrow> ''.'')"

definition include_dir_of :: "'w os \<Rightarrow> kwargs \<Rightarrow> string" where
  "include_dir_of sys kw =
     (case kw_include_dir kw of
        Some d \<Rightarrow> d
      | None \<Rightarrow> join (dirname (doc_dir_of sys kw)) [''include'', ''interval_dict''])"

definition doxyxml_dir_of :: "'w os \<Rightarrow> kwargs \<Rightarrow> string" where
  "doxyxml_dir_of sys kw = join (doc_dir_of sys kw) [''doxyxml'']"

definition html_dir_of :: "kwargs \<Rightarrow> string" where
  "html_dir_of kw = join (work_dir_of kw) [''html'']"

text \<open>\<open>reversed(versions[-3:])\<close>\<close>

definition main_versions :: "string list \<Rightarrow> string list" where
  "main_versions vs = rev (slice_from (- 3) vs)"

text \<open>The argument vectors of lines 64, 100 to 104 and 106 to 109.\<close>

definition doxygen_cmd :: "string list" where
  "doxygen_cmd = [''doxygen'', ''-'']"

definition sphinx_cmd ::
  "string \<Rightarrow> string \<Rightarrow> string \<Rightarrow> string list \<Rightarrow> string \<Rightarrow> string \<Rightarrow> string list" where
  "sphinx_cmd cwd doxyxml_dir version vs doc html_dir =
     [''sphinx-build'',
      ''-Dbreathe_projects.format='' @ abspath cwd doxyxml_dir,
      ''-Dversion='' @ version, ''-Drelease='' @ version,
      ''-Aversion='' @ version, ''-Aversions='' @ str_join '','' (main_versions vs),
      ''-b'', ''html'', doc, html_dir]"

definition lessc_cmd :: "string \<Rightarrow> string \<Rightarrow> string list" where
  "lessc_cmd doc html_dir =
     [''lessc'', ''--clean-css'',
      ''--include-path='' @ join doc [''bootstrap''],
      join doc [''interval_dict.less''],
      join html_dir [''_static'', ''interval_dict.css'']]"

definition lessc_hint :: string where
  "lessc_hint =
     ''lessc not found; make sure that Less (http://lesscss.org/) '' @ ''is installed''"

text \<open>
  Lines 64 to 97: \<open>doxygen\<close> is launched, reads the configuration text and is waited
  for; a non-zero exit code raises \<open>CalledProcessError\<close>.
\<close>

definition doxygen_step :: "'w os \<Rightarrow> kwargs \<Rightarrow> ('w, unit) py" where
  "doxygen_step sys kw =
     bindE (popen_communicate sys doxygen_cmd
              (cmd_str (include_dir_of sys kw) (doxyxml_dir_of sys kw)))
       (\<lambda>returncode s.
          if returncode \<noteq> 0 then (Inl (CalledProcessError returncode doxygen_cmd), s)
          else (Inr (), s))"

text \<open>
  Lines 99 to 104. The program named in the argument vector is the literal of line 100;
  the parameter \<open>sphinx_executable\<close> of \<open>build_docs\<close> does not occur in the body of
  the function.
\<close>

definition render_step :: "'w os \<Rightarrow> string \<Rightarrow> kwargs \<Rightarrow> ('w, unit) py" where
  "render_step sys version kw s =
     check_call sys
       (sphinx_cmd (getcwd sys (world s)) (doxyxml_dir_of sys kw) version (versions s)
          (doc_dir_of sys kw) (html_dir_of kw)) s"

text \<open>
  Lines 105 to 115: an \<open>OSError\<close> of \<open>lessc\<close> is caught; it is raised again unless
  its error number is \<open>ENOENT\<close>, in which case the hint is printed and \<open>sys.exit(1)\<close>
  raises \<open>SystemExit\<close>. Every other exception is not caught.
\<close>

definition styling_step :: "'w os \<Rightarrow> kwargs \<Rightarrow> ('w, unit) py" where
  "styling_step sys kw s =
     (case check_call sys (lessc_cmd (doc_dir_of sys kw) (html_dir_of kw)) s of
        (Inl e, s') \<Rightarrow>
          (case e of
             OSError errno \<Rightarrow>
               (if errno \<noteq> ENOENT then (Inl e, s')
                else bindE (print lessc_hint) (\<lambda>_ s''. (Inl (SystemExit 1), s'')) s')
           | _ \<Rightarrow> (Inl e, s'))
      | (Inr u, s') \<Rightarrow> (Inr u, s'))"

text \<open>The function returns \<open>html_dir\<close> (line 116).\<close>

definition build_docs :: "'w os \<Rightarrow> string \<Rightarrow> string \<Rightarrow> kwargs \<Rightarrow> ('w, string) py" where
  "build_docs sys sphinx_executable version kw =
     bindE (doxygen_step sys kw)
     (\<lambda>_. bindE (render_step sys version kw)
     (\<lambda>_. bindE (styling_step sys kw)
     (\<lambda>_ s. (Inr (html_dir_of kw), s))))"

subsection \<open>The entry point\<close>

text \<open>
  \<open>create_build_env()\<close> runs first; \<open>sys.argv[1]\<close> and \<open>sys.argv[2]\<close> are read after
  it and raise \<open>IndexError\<close> when the argument vector is too short.
\<close>

definition argv_get :: "string list \<Rightarrow> nat \<Rightarrow> exc + string" where
  "argv_get argv i = (if i < length argv then Inr (argv ! i) else Inl IndexError)"

definition main :: "'w os \<Rightarrow> string list \<Rightarrow> ('w, string) py" where
  "main sys argv =
     bindE (create_build_env sys ''virtualenv'')
     (\<lambda>_. bindE (\<lambda>s. (argv_get argv 1, s))
     (\<lambda>a1. bindE (\<lambda>s. (argv_get argv 2, s))
     (\<lambda>a2. build_docs sys a1 a2 no_kwargs)))"

text \<open>
  The exit status of the interpreter: 0 when the script ends, the argument of
  \<open>sys.exit\<close>, and 1 for any other exception that is not caught.
\<close>

definition exit_status :: "(exc + 'a) \<Rightarrow> int" where
  "exit_status r = (case r of Inr _ \<Rightarrow> 0 | Inl (SystemExit n) \<Rightarrow> n | Inl _ \<Rightarrow> 1)"

subsection \<open>A simulated operating system\<close>

text \<open>
  For running the model on concrete inputs: the world is the number of programs that have
  run, each program either runs to a fixed exit code or cannot be launched, the installed
  distributions are a fixed table, the environment directory exists and its activation
  script does nothing.
\<close>

datatype tool = Runs int | Missing nat

definition sim_os :: "(string \<Rightarrow> tool) \<Rightarrow> (string \<Rightarrow> string option) \<Rightarrow> nat os" where
  "sim_os tools dists =
     \<lparr>spawn = (\<lambda>cmd input w.
                 case cmd of
                   [] \<Rightarrow> LaunchFailed ENOENT
                 | prog # _ \<Rightarrow>
                     (case tools prog of
                        Runs rc \<Rightarrow> Exited rc (Suc w)
                      | Missing errno \<Rightarrow> LaunchFailed errno)),
      path_exists = (\<lambda>p w. True),
      get_distribution = (\<lambda>name w.
                 case dists name of
                   None \<Rightarrow> Inl DistributionNotFound
                 | Some v \<Rightarrow> Inr v),
      exec_file = (\<lambda>p s. (Inr (), s)),
      cwd_names = (\<lambda>w. [''home'', ''user'', ''build'']),
      scripts_path = ''/usr/local/bin'',
      script_realpath = ''/home/user/interval_dict/doc/build.py''\<rparr>"

definition all_tools_run :: "string \<Rightarrow> tool" where
  "all_tools_run prog = Runs 0"

definition toolchain_installed :: "string \<Rightarrow> string option" where
  "toolchain_installed =
     [''pip'' \<mapsto> ''20.0.2'', ''breathe'' \<mapsto> ''4.15.0'', ''sphinx'' \<mapsto> ''3.1.0'']"

definition start :: "nat pstate" where
  "start = \<lparr>world = 0, versions = initial_versions, stdout = [], launched = []\<rparr>"

subsection \<open>Sequences of operations\<close>





section \<open>Properties\<close>

subsection \<open>Launches, printed lines and the list of versions\<close>

lemma slice_from_last3: "slice_from (- 3) xs = drop (length xs - 3) xs"
  by (auto simp: slice_from_def Let_def max_def nat_diff_distrib intro: arg_cong2[where f=drop])

lemma check_call_launched:
  "launched (snd (check_call sys cmd s)) = launched s @ [cmd]"
  by (simp add: check_call_def split: launch.splits)

lemma pip_run_eq:
  "pip_run sys package commit s
     = check_call sys [''pip'', ''install'', pip_identifier package commit]
         (s\<lparr>stdout := stdout s @ [''Installing '' @ pip_identifier package commit]\<rparr>)"
  by (simp add: pip_run_def bindE_def print_def)

lemma pip_run_launched:
  "launched (snd (pip_run sys package commit s))
     = launched s @ [[''pip'', ''install'', pip_identifier package commit]]"
  by (simp add: pip_run_eq check_call_launched)


lemma doxygen_step_versions:
  "versions (snd (doxygen_step sys kw s)) = versions s"
  by (simp add: doxygen_step_def bindE_def popen_communicate_def split: launch.splits)

lemma styling_step_launched:
  "launched (snd (styling_step sys kw s))
     = launched s @ [lessc_cmd (doc_dir_of sys kw) (html_dir_of kw)]"
  by (simp add: styling_step_def check_call_def bindE_def print_def
           split: launch.splits exc.splits)

text \<open>
  Once \<open>doxygen\<close> has succeeded, the next program launched is the renderer, with the
  argument vector of lines 100 to 104.
\<close>

lemma render_launched:
  assumes "doxygen_step sys kw s = (Inr (), s1)"
  shows "launched (snd (build_docs sys sphinx_executable version kw s)) ! length (launched s1)
           = sphinx_cmd (getcwd sys (world s1)) (doxyxml_dir_of sys kw) version (versions s)
               (doc_dir_of sys kw) (html_dir_of kw)"
proof -
  have v: "versions s1 = versions s"
    using doxygen_step_versions[of sys kw s] assms by simp
  let ?c = "sphinx_cmd (getcwd sys (world s1)) (doxyxml_dir_of sys kw) version (versions s)
               (doc_dir_of sys kw) (html_dir_of kw)"
  have r: "launched (snd (render_step sys version kw s1)) = launched s1 @ [?c]"
    by (simp add: render_step_def check_call_launched v)
  have "\<exists>rest. launched (snd (build_docs sys sphinx_executable version kw s))
           = launched s1 @ ?c # rest"
  proof (cases "render_step sys version kw s1")
    case (Pair res s2)
    then have l2: "launched s2 = launched s1 @ [?c]" using r by simp
    show ?thesis
    proof (cases res)
      case (Inl e)
      then show ?thesis using assms Pair l2 by (simp add: build_docs_def bindE_def)
    next
      case (Inr u)
      then show ?thesis
        using assms Pair l2 styling_step_launched[of sys kw s2]
        by (cases "styling_step sys kw s2") (auto simp: build_docs_def bindE_def split: sum.splits)
    qed
  qed
  then show ?thesis by (auto simp: nth_append)
qed

subsection \<open>Absolute paths\<close>

lemma isabs_getcwd: "isabs (getcwd sys w)"
  by (cases "cwd_names sys w") (simp_all add: getcwd_def isabs_def)

lemma isabs_join2: "isabs a \<Longrightarrow> isabs (join2 a b)"
  by (cases a) (auto simp: join2_def isabs_def)

lemma isabs_slashes: "0 < n \<Longrightarrow> isabs (replicate n (CHR ''/'') @ r)"
  by (cases n) (simp_all add: isabs_def)

lemma isabs_normpath:
  assumes "isabs p"
  shows "isabs (normpath p)"
proof -
  from assms have nonempty: "p \<noteq> []" and slashes: "0 < initial_slashes p"
    by (auto simp: isabs_def initial_slashes_def)
  let ?path = "replicate (initial_slashes p) (CHR ''/'')
                 @ str_join ''/'' (foldl (norm_step (initial_slashes p)) [] (str_split (CHR ''/'') p))"
  have abs: "isabs ?path" using slashes by (rule isabs_slashes)
  have "normpath p = ?path" using nonempty slashes by (simp add: normpath_def Let_def)
  then show ?thesis using abs by simp
qed

lemma isabs_abspath: "isabs cwd \<Longrightarrow> isabs (abspath cwd p)"
  by (simp add: abspath_def isabs_normpath isabs_join2)

subsection \<open>Running the model\<close>

lemmas sim_simps = sim_os_def all_tools_run_def toolchain_installed_def start_def
  initial_versions_def no_kwargs_def

lemmas step_simps = doxygen_step_def render_step_def styling_step_def popen_communicate_def
  check_call_def bindE_def print_def doxygen_cmd_def

lemmas path_simps = sphinx_cmd_def lessc_cmd_def
  doc_dir_of_def work_dir_of_def html_dir_of_def doxyxml_dir_of_def getcwd_def
  join_def join2_def isabs_def dirname_def rstrip_slash_def abspath_def normpath_def
  initial_slashes_def norm_step_def main_versions_def slice_from_def

lemma version_examples:
  "LooseVersion_ge ''4.15.0'' ''4.15.0'' = Inr True"
  "LooseVersion_ge ''4.14.9'' ''4.15.0'' = Inr False"
  "LooseVersion_ge ''4.15.0'' [] = Inl AttributeError"
  "LooseVersion_ge ''3.1.0'' ''3.1.0'' = Inr True"
  "LooseVersion_lt ''20.0.2'' ''1.5.4'' = Inr False"
  by code_simp+

text \<open>
  A complete run of \<open>build_docs\<close> with its default directories, every program
  succeeding.
\<close>

lemma sim_build_docs:
  "build_docs (sim_os all_tools_run dists) exe ''dev'' no_kwargs start =
     (Inr ''./html'',
      \<lparr>world = 3, versions = [''0.1.0''], stdout = [],
       launched =
         [[''doxygen'', ''-''],
          [''sphinx-build'',
           ''-Dbreathe_projects.format=/home/user/interval_dict/doc/doxyxml'',
           ''-Dversion=dev'', ''-Drelease=dev'', ''-Aversion=dev'', ''-Aversions=0.1.0'',
           ''-b'', ''html'', ''/home/user/interval_dict/doc'', ''./html''],
          [''lessc'', ''--clean-css'',
           ''--include-path=/home/user/interval_dict/doc/bootstrap'',
           ''/home/user/interval_dict/doc/interval_dict.less'',
           ''./html/_static/interval_dict.css'']]\<rparr>)"
  by (simp add: build_docs_def step_simps sim_simps path_simps)

text \<open>With the tool chain installed, \<open>create_build_env\<close> installs nothing.\<close>

lemma sim_create_build_env:
  "create_build_env (sim_os tools toolchain_installed) ''virtualenv'' start =
     (Inr (), start\<lparr>stdout := [''breathe 4.15.0 already installed'',
                                ''sphinx 3.1.0 already installed'']\<rparr>)"
  by (simp add: create_build_env_def bindE_def sim_simps pip_install_def print_def
        basename_def version_examples)

subsection \<open>The list of versions is only read\<close>




















subsection \<open>The version picker\<close>

text \<open>
  C2 (as amended). For every list of known versions, the list handed to the renderer
  has \<open>min 3 n\<close> entries, which are the last entries of the known versions, and it
  presents them in the reverse of their order in that list: the newest first. It is
  the text after \<open>-Aversions=\<close> in the argument vector of the renderer.
\<close>

theorem C2_main_versions_newest_first:
  "length (main_versions vs) = min 3 (length vs)
   \<and> rev (main_versions vs) = drop (length vs - 3) vs
   \<and> suffix (rev (main_versions vs)) vs
   \<and> sphinx_cmd cwd xml version vs doc html ! 5
       = ''-Aversions='' @ str_join '','' (main_versions vs)"
  by (auto simp: main_versions_def slice_from_last3 suffix_drop sphinx_cmd_def)

text \<open>
  C2 as stated fails: for the versions 0.1.0 and 0.2.0, released in this order, the
  picker shows 0.2.0 before 0.1.0, which is not a suffix of the list in its own order.
\<close>

theorem C2_counterexample:
  "main_versions [''0.1.0'', ''0.2.0''] = [''0.2.0'', ''0.1.0'']
   \<and> \<not> suffix (main_versions [''0.1.0'', ''0.2.0'']) [''0.1.0'', ''0.2.0'']"
  by (simp add: main_versions_def slice_from_def suffix_def Cons_eq_append_conv)

subsection \<open>The installer\<close>



text \<open>
  C7. A reference is supplied when it is a non-empty string. For every package and every
  reference \<open>c\<close> supplied, whenever no skip occurs (there is no minimum version, or
  the distribution is not found, or its version is not greater than or equal to the
  minimum), \<open>pip install\<close> is run on exactly
  \<open>git+https://github.com/<package>.git@<c>\<close>; and in every case nothing else is
  launched.
\<close>

theorem C7_identifier_for_supplied_commit:
  assumes "c \<noteq> []"
  shows "(min_version = None \<or> min_version = Some []
          \<or> (\<exists>m. min_version = Some m
                 \<and> get_distribution sys (basename package) (world s) = Inl DistributionNotFound)
          \<or> (\<exists>m v. min_version = Some m
                 \<and> get_distribution sys (basename package) (world s) = Inr v
                 \<and> LooseVersion_ge v m = Inr False)
          \<longrightarrow> pip_install sys package (Some c) min_version s
                = check_call sys
                    [''pip'', ''install'', ''git+https://github.com/'' @ package @ ''.git@'' @ c]
                    (s\<lparr>stdout := stdout s
                         @ [''Installing git+https://github.com/'' @ package @ ''.git@'' @ c]\<rparr>)
              \<and> launched (snd (pip_install sys package (Some c) min_version s))
                  = launched s
                    @ [[''pip'', ''install'', ''git+https://github.com/'' @ package @ ''.git@'' @ c]])
         \<and> (launched (snd (pip_install sys package (Some c) min_version s)) = launched s
             \<or> launched (snd (pip_install sys package (Some c) min_version s))
                  = launched s
                    @ [[''pip'', ''install'', ''git+https://github.com/'' @ package @ ''.git@'' @ c]])"
proof -
  let ?url = "''git+https://github.com/'' @ package @ ''.git@'' @ c"
  have ident: "pip_identifier package (Some c) = ?url"
    using assms by (simp add: pip_identifier_def)
  have run: "pip_run sys package (Some c) s
               = check_call sys [''pip'', ''install'', ?url]
                   (s\<lparr>stdout := stdout s @ [''Installing '' @ ?url]\<rparr>)"
    by (simp add: pip_run_eq ident)
  have reach: "pip_install sys package (Some c) min_version s = pip_run sys package (Some c) s"
    if "min_version = None \<or> min_version = Some []
          \<or> (\<exists>m. min_version = Some m
                 \<and> get_distribution sys (basename package) (world s) = Inl DistributionNotFound)
          \<or> (\<exists>m v. min_version = Some m
                 \<and> get_distribution sys (basename package) (world s) = Inr v
                 \<and> LooseVersion_ge v m = Inr False)"
    using that by (auto simp: pip_install_def)
  have either: "launched (snd (pip_install sys package (Some c) min_version s)) = launched s
             \<or> launched (snd (pip_install sys package (Some c) min_version s))
                  = launched s @ [[''pip'', ''install'', ?url]]"
    using pip_run_launched[of sys package "Some c" s]
    by (auto simp: pip_install_def ident print_def split: option.splits sum.splits)
  show ?thesis
    using reach either run pip_run_launched[of sys package "Some c" s]
    by (auto simp: ident)
qed

text \<open>
  C7 at work: \<open>fmtlib/fmt\<close> at the reference \<open>abc123\<close> with no minimum version, and
  \<open>michaeljones/breathe\<close> with a minimum version that the installed one does not reach.
\<close>

theorem C7_witness:
  "''abc123'' \<noteq> []
   \<and> launched (snd (pip_install (sim_os all_tools_run toolchain_installed) ''fmtlib/fmt''
                      (Some ''abc123'') None start))
       = [[''pip'', ''install'', ''git+https://github.com/fmtlib/fmt.git@abc123'']]
   \<and> launched (snd (pip_install (sim_os all_tools_run toolchain_installed) ''michaeljones/breathe''
                      (Some ''abc123'') (Some ''4.16'') start))
       = [[''pip'', ''install'', ''git+https://github.com/michaeljones/breathe.git@abc123'']]"
proof -
  let ?sys = "sim_os all_tools_run toolchain_installed"
  have ne: "''abc123'' \<noteq> []" by simp
  have ge: "LooseVersion_ge ''4.15.0'' ''4.16'' = Inr False" by code_simp
  have older: "get_distribution ?sys (basename ''michaeljones/breathe'') (world start) = Inr ''4.15.0''"
    by (simp add: sim_simps basename_def)
  from C7_identifier_for_supplied_commit[OF ne, of None ?sys "''fmtlib/fmt''" start]
  have "launched (snd (pip_install ?sys ''fmtlib/fmt'' (Some ''abc123'') None start))
          = launched start
            @ [[''pip'', ''install'', ''git+https://github.com/'' @ ''fmtlib/fmt'' @ ''.git@'' @ ''abc123'']]"
    by blast
  moreover
  from C7_identifier_for_supplied_commit
         [OF ne, of "Some ''4.16''" ?sys "''michaeljones/breathe''" start] older ge
  have "launched (snd (pip_install ?sys ''michaeljones/breathe'' (Some ''abc123'') (Some ''4.16'') start))
          = launched start
            @ [[''pip'', ''install'',
                ''git+https://github.com/'' @ ''michaeljones/breathe'' @ ''.git@'' @ ''abc123'']]"
    by blast
  ultimately show ?thesis
    by (simp add: start_def)
qed

subsection \<open>The build of the documentation\<close>

text \<open>
  C5. Whenever \<open>doxygen\<close> exits with a non-zero code, \<open>build_docs\<close> raises
  \<open>CalledProcessError\<close> with that code, and \<open>doxygen\<close> is the only program it has
  launched: the renderer is not run.
\<close>

theorem C5_doxygen_failure_stops_build:
  assumes "spawn sys [''doxygen'', ''-'']
             (Some (cmd_str (include_dir_of sys kw) (doxyxml_dir_of sys kw))) (world s)
           = Exited rc w"
    and "rc \<noteq> 0"
  shows "build_docs sys sphinx_executable version kw s =
           (Inl (CalledProcessError rc [''doxygen'', ''-'']),
            s\<lparr>world := w, launched := launched s @ [[''doxygen'', ''-'']]\<rparr>)"
  using assms
  by (simp add: build_docs_def bindE_def doxygen_step_def popen_communicate_def doxygen_cmd_def)

text \<open>C5 at work: \<open>doxygen\<close> exits with code 3.\<close>

theorem C5_witness:
  "build_docs (sim_os (all_tools_run(''doxygen'' := Runs 3)) Map.empty) ''sphinx-build'' ''dev''
      no_kwargs start =
     (Inl (CalledProcessError 3 [''doxygen'', ''-'']),
      \<lparr>world = 1, versions = [''0.1.0''], stdout = [], launched = [[''doxygen'', ''-'']]\<rparr>)"
  using C5_doxygen_failure_stops_build
          [of "sim_os (all_tools_run(''doxygen'' := Runs 3)) Map.empty" no_kwargs start 3 1
              "''sphinx-build''" "''dev''"]
  by (simp add: sim_os_def start_def initial_versions_def)

text \<open>
  C4. When \<open>doxygen\<close> and the renderer have succeeded and \<open>lessc\<close> cannot be
  launched: if the error number is \<open>ENOENT\<close>, the line "lessc not found; make sure that
  Less (http://lesscss.org/) is installed" is printed and \<open>SystemExit 1\<close> is raised;
  any other error number is raised again as the same \<open>OSError\<close>, with nothing printed.
  In both cases the world is the one the renderer left, with the \<open>html\<close> directory as
  it was, and the exit status of the interpreter is 1.
\<close>

theorem C4_missing_lessc_exits_1:
  assumes "doxygen_step sys kw s = (Inr (), s1)"
    and "render_step sys version kw s1 = (Inr (), s2)"
    and "spawn sys (lessc_cmd (doc_dir_of sys kw) (html_dir_of kw)) None (world s2)
           = LaunchFailed errno"
  shows "build_docs sys sphinx_executable version kw s =
           (if errno = 2
            then (Inl (SystemExit 1),
                  s2\<lparr>launched := launched s2 @ [lessc_cmd (doc_dir_of sys kw) (html_dir_of kw)],
                     stdout := stdout s2
                       @ [''lessc not found; make sure that Less (http://lesscss.org/) is installed'']\<rparr>)
            else (Inl (OSError errno),
                  s2\<lparr>launched := launched s2 @ [lessc_cmd (doc_dir_of sys kw) (html_dir_of kw)]\<rparr>))
         \<and> world (snd (build_docs sys sphinx_executable version kw s)) = world s2
         \<and> path_exists sys (join (work_dir_of kw) [''html''])
               (world (snd (build_docs sys sphinx_executable version kw s)))
             = path_exists sys (join (work_dir_of kw) [''html'']) (world s2)
         \<and> exit_status (fst (build_docs sys sphinx_executable version kw s)) = 1"
  using assms
  by (simp add: build_docs_def bindE_def styling_step_def check_call_def print_def
        exit_status_def ENOENT_def lessc_hint_def)

text \<open>
  C4 at work: \<open>lessc\<close> is missing (error number 2, \<open>ENOENT\<close>), and \<open>lessc\<close> may
  not be executed (error number 13).
\<close>

theorem C4_witness:
  "build_docs (sim_os (all_tools_run(''lessc'' := Missing 2)) Map.empty)
          ''sphinx-build'' ''dev'' no_kwargs start
     = (Inl (SystemExit 1),
        \<lparr>world = 2, versions = [''0.1.0''],
         stdout = [''lessc not found; make sure that Less (http://lesscss.org/) is installed''],
         launched =
           [[''doxygen'', ''-''],
            [''sphinx-build'',
             ''-Dbreathe_projects.format=/home/user/interval_dict/doc/doxyxml'',
             ''-Dversion=dev'', ''-Drelease=dev'', ''-Aversion=dev'', ''-Aversions=0.1.0'',
             ''-b'', ''html'', ''/home/user/interval_dict/doc'', ''./html''],
            [''lessc'', ''--clean-css'',
             ''--include-path=/home/user/interval_dict/doc/bootstrap'',
             ''/home/user/interval_dict/doc/interval_dict.less'',
             ''./html/_static/interval_dict.css'']]\<rparr>)
   \<and> fst (build_docs (sim_os (all_tools_run(''lessc'' := Missing 13)) Map.empty)
          ''sphinx-build'' ''dev'' no_kwargs start) = Inl (OSError 13)
   \<and> stdout (snd (build_docs (sim_os (all_tools_run(''lessc'' := Missing 13)) Map.empty)
          ''sphinx-build'' ''dev'' no_kwargs start)) = []"
proof -
  have run: "fst (doxygen_step (sim_os (all_tools_run(''lessc'' := Missing e)) Map.empty)
                    no_kwargs start) = Inr ()
             \<and> fst (render_step (sim_os (all_tools_run(''lessc'' := Missing e)) Map.empty) ''dev''
                    no_kwargs
                    (snd (doxygen_step (sim_os (all_tools_run(''lessc'' := Missing e)) Map.empty)
                            no_kwargs start))) = Inr ()
             \<and> spawn (sim_os (all_tools_run(''lessc'' := Missing e)) Map.empty)
                   (lessc_cmd (doc_dir_of (sim_os (all_tools_run(''lessc'' := Missing e)) Map.empty)
                                 no_kwargs) (html_dir_of no_kwargs)) None w
                 = LaunchFailed e" for e w
    by (simp add: step_simps sim_simps lessc_cmd_def sphinx_cmd_def)
  have pair: "fst x = a \<Longrightarrow> x = (a, snd x)" for x :: "'a \<times> 'b" and a
    by auto
  note r = run[THEN conjunct1, THEN pair] run[THEN conjunct2, THEN conjunct1, THEN pair]
    run[THEN conjunct2, THEN conjunct2]
  show ?thesis
    using C4_missing_lessc_exits_1[OF r(1) r(2) r(3), of 2 "''sphinx-build''"]
      C4_missing_lessc_exits_1[OF r(1) r(2) r(3), of 13 "''sphinx-build''"]
    by (simp add: step_simps sim_simps path_simps)
qed

text \<open>
  C6 (as amended). When the three steps succeed, \<open>build_docs\<close> returns
  \<open>os.path.join(work_dir, 'html')\<close>, which is an absolute path exactly when the working
  directory is given as one.
\<close>

theorem C6_returns_html_under_work_dir:
  assumes "doxygen_step sys kw s = (Inr (), s1)"
    and "render_step sys version kw s1 = (Inr (), s2)"
    and "styling_step sys kw s2 = (Inr (), s3)"
  shows "build_docs sys sphinx_executable version kw s
           = (Inr (join (work_dir_of kw) [''html'']), s3)
         \<and> (isabs (join (work_dir_of kw) [''html'']) \<longleftrightarrow> isabs (work_dir_of kw))"
  using assms
  by (auto simp: build_docs_def bindE_def html_dir_of_def join_def join2_def isabs_def
           split: list.splits)

text \<open>C6 at work: with the working directory \<open>/srv/docs\<close> the result is absolute.\<close>

theorem C6_witness:
  "build_docs (sim_os all_tools_run Map.empty) ''sphinx-build'' ''dev''
      (no_kwargs\<lparr>kw_work_dir := Some ''/srv/docs''\<rparr>) start
     = (Inr ''/srv/docs/html'',
        snd (build_docs (sim_os all_tools_run Map.empty) ''sphinx-build'' ''dev''
               (no_kwargs\<lparr>kw_work_dir := Some ''/srv/docs''\<rparr>) start))
   \<and> isabs ''/srv/docs/html''"
proof -
  let ?sys = "sim_os all_tools_run Map.empty"
  let ?kw = "no_kwargs\<lparr>kw_work_dir := Some ''/srv/docs''\<rparr>"
  let ?s1 = "snd (doxygen_step ?sys ?kw start)"
  let ?s2 = "snd (render_step ?sys ''dev'' ?kw ?s1)"
  let ?s3 = "snd (styling_step ?sys ?kw ?s2)"
  have d: "doxygen_step ?sys ?kw start = (Inr (), ?s1)"
    by (simp add: step_simps sim_simps)
  have r: "render_step ?sys ''dev'' ?kw ?s1 = (Inr (), ?s2)"
    by (simp add: step_simps sim_simps sphinx_cmd_def)
  have l: "styling_step ?sys ?kw ?s2 = (Inr (), ?s3)"
    by (simp add: step_simps sim_simps sphinx_cmd_def lessc_cmd_def)
  from C6_returns_html_under_work_dir[OF d r l, of "''sphinx-build''"] show ?thesis
    by (simp add: work_dir_of_def no_kwargs_def join_def join2_def isabs_def)
qed

text \<open>
  C6 as stated fails for the default working directory: the result is \<open>./html\<close>, which
  is not an absolute path.
\<close>

theorem C6_counterexample:
  "fst (build_docs (sim_os all_tools_run Map.empty) ''sphinx-build'' ''dev'' no_kwargs start)
     = Inr ''./html''
   \<and> \<not> isabs ''./html''"
  by (simp add: sim_build_docs isabs_def)

text \<open>
  C8. With the known versions \<open>["0.1.0"]\<close> and the version \<open>dev\<close>, the arguments of
  the renderer after the bridge source are \<open>-Dversion=dev\<close>, \<open>-Drelease=dev\<close>,
  \<open>-Aversion=dev\<close> and \<open>-Aversions=0.1.0\<close>.
\<close>

theorem C8_render_arguments_for_dev:
  assumes "versions s = [''0.1.0'']"
    and "doxygen_step sys kw s = (Inr (), s1)"
  shows "drop 2 (take 6 (launched (snd (build_docs sys sphinx_executable ''dev'' kw s))
                          ! length (launched s1)))
         = [''-Dversion=dev'', ''-Drelease=dev'', ''-Aversion=dev'', ''-Aversions=0.1.0'']"
  using render_launched[OF assms(2), of sphinx_executable "''dev''"] assms(1)
  by (simp add: sphinx_cmd_def main_versions_def slice_from_def)

text \<open>C8 at work: a run from the initial state of the module.\<close>

theorem C8_witness:
  "versions start = [''0.1.0'']
   \<and> drop 2 (take 6 (launched (snd (build_docs (sim_os all_tools_run Map.empty)
                                       ''sphinx-build'' ''dev'' no_kwargs start)) ! 1))
       = [''-Dversion=dev'', ''-Drelease=dev'', ''-Aversion=dev'', ''-Aversions=0.1.0'']"
proof -
  let ?sys = "sim_os all_tools_run Map.empty"
  let ?s1 = "snd (doxygen_step ?sys no_kwargs start)"
  have v: "versions start = [''0.1.0'']"
    by (simp add: start_def initial_versions_def)
  have d: "doxygen_step ?sys no_kwargs start = (Inr (), ?s1)"
    by (simp add: step_simps sim_simps)
  have n: "length (launched ?s1) = 1"
    by (simp add: step_simps sim_simps)
  from C8_render_arguments_for_dev[OF v d, of "''sphinx-build''"] v n show ?thesis
    by simp
qed

text \<open>
  C10. The bridge source handed to the renderer is \<open>os.path.abspath\<close> of the
  \<open>doxyxml\<close> directory under the documentation directory, and it is an absolute path
  whatever the documentation directory is.
\<close>

theorem C10_doxyxml_path_is_absolute:
  assumes "doxygen_step sys kw s = (Inr (), s1)"
  shows "launched (snd (build_docs sys sphinx_executable version kw s)) ! length (launched s1) ! 1
           = ''-Dbreathe_projects.format=''
               @ abspath (getcwd sys (world s1)) (join (doc_dir_of sys kw) [''doxyxml''])
         \<and> isabs (abspath (getcwd sys (world s1)) (join (doc_dir_of sys kw) [''doxyxml'']))"
  using render_launched[OF assms, of sphinx_executable version]
  by (simp add: sphinx_cmd_def isabs_abspath isabs_getcwd doxyxml_dir_of_def)

text \<open>
  C10 at work: the documentation directory \<open>../doc\<close>, from the current directory
  \<open>/home/user/build\<close>.
\<close>

theorem C10_witness:
  "launched (snd (build_docs (sim_os all_tools_run Map.empty) ''sphinx-build'' ''dev''
                    (no_kwargs\<lparr>kw_doc_dir := Some ''../doc''\<rparr>) start)) ! 1 ! 1
     = ''-Dbreathe_projects.format=/home/user/doc/doxyxml''
   \<and> isabs ''/home/user/doc/doxyxml''"
proof -
  let ?sys = "sim_os all_tools_run Map.empty"
  let ?kw = "no_kwargs\<lparr>kw_doc_dir := Some ''../doc''\<rparr>"
  let ?s1 = "snd (doxygen_step ?sys ?kw start)"
  have d: "doxygen_step ?sys ?kw start = (Inr (), ?s1)"
    by (simp add: step_simps sim_simps)
  have n: "length (launched ?s1) = 1"
    by (simp add: step_simps sim_simps)
  have p: "abspath (getcwd ?sys (world ?s1)) (join (doc_dir_of ?sys ?kw) [''doxyxml''])
             = ''/home/user/doc/doxyxml''"
    by (simp add: sim_simps path_simps)
  from C10_doxyxml_path_is_absolute[OF d, of "''sphinx-build''" "''dev''"] n p show ?thesis
    by simp
qed

subsection \<open>The entry point\<close>

text \<open>The result of \<open>build_docs\<close> does not depend on its first argument.\<close>

lemma build_docs_ignores_sphinx_executable:
  "build_docs sys e1 version kw = build_docs sys e2 version kw"
  by (simp add: build_docs_def)

text \<open>
  C1, on the code: the entry point is run with the rendering tool
  \<open>/opt/sphinx/bin/sphinx-build-3\<close> as its first argument and every program
  succeeding. The programs launched are \<open>doxygen\<close>, \<open>sphinx-build\<close> and \<open>lessc\<close>:
  the renderer that runs is the fixed name of line 100, not the program of the argument.
\<close>

theorem C1_render_runs_fixed_program:
  "map hd (launched (snd (main (sim_os all_tools_run toolchain_installed)
                            [''build.py'', ''/opt/sphinx/bin/sphinx-build-3'', ''dev''] start)))
     = [''doxygen'', ''sphinx-build'', ''lessc'']"
proof -
  let ?sys = "sim_os all_tools_run toolchain_installed"
  let ?out = "[''breathe 4.15.0 already installed'', ''sphinx 3.1.0 already installed'']"
  have env: "create_build_env ?sys ''virtualenv'' start = (Inr (), start\<lparr>stdout := ?out\<rparr>)"
    by (rule sim_create_build_env)
  have "main ?sys [''build.py'', ''/opt/sphinx/bin/sphinx-build-3'', ''dev''] start
          = build_docs ?sys ''/opt/sphinx/bin/sphinx-build-3'' ''dev'' no_kwargs
              (start\<lparr>stdout := ?out\<rparr>)"
    by (simp add: main_def bindE_def env argv_get_def)
  then show ?thesis
    by (simp add: build_docs_def step_simps sim_simps path_simps)
qed

end
